theory Spec2Isabelle
  imports Main "HOL-Library.Sublist"
begin

section \<open>Strings, slices and paths\<close>

text \<open>
  Go strings are byte sequences: \<open>string\<close> here. A Go \<open>error\<close> value is modelled by
  its message; \<open>nil\<close> is \<open>None\<close>.
\<close>

type_synonym error = string

text \<open>
  Modelled from the spec: \<open>helpers.AppendIfMissing\<close> (package internal/helpers), which
  "appends a directory to the set if not already present (idempotent)".
\<close>

definition AppendIfMissing :: "string list \<Rightarrow> string \<Rightarrow> string list" where
  "AppendIfMissing slice s = (if s \<in> set slice then slice else slice @ [s])"

text \<open>
  Modelled from the spec: \<open>helpers.SliceContains\<close> (package internal/helpers), the
  "membership test" on a slice of strings.
\<close>

definition SliceContains :: "string list \<Rightarrow> string \<Rightarrow> bool" where
  "SliceContains slice s = (s \<in> set slice)"

text \<open>\<open>strings.HasPrefix\<close>.\<close>

definition HasPrefix :: "string \<Rightarrow> string \<Rightarrow> bool" where
  "HasPrefix s pre = (take (length pre) s = pre)"

text \<open>\<open>strings.Contains\<close>.\<close>

fun Contains :: "string \<Rightarrow> string \<Rightarrow> bool" where
  "Contains [] sub = (sub = [])"
| "Contains (x # xs) sub = (HasPrefix (x # xs) sub \<or> Contains xs sub)"

text \<open>\<open>strings.Split\<close> with a one-byte separator: \<open>Split("", ":")\<close> is \<open>[""]\<close>.\<close>

fun SplitChar :: "char \<Rightarrow> string \<Rightarrow> string list" where
  "SplitChar c [] = [[]]"
| "SplitChar c (x # xs) =
     (if x = c then [] # SplitChar c xs
      else (case SplitChar c xs of [] \<Rightarrow> [[x]] | w # ws \<Rightarrow> (x # w) # ws))"

text \<open>\<open>strings.Join\<close>.\<close>

fun Join :: "string list \<Rightarrow> string \<Rightarrow> string" where
  "Join [] sep = []"
| "Join [a] sep = a"
| "Join (a # b # r) sep = a @ sep @ Join (b # r) sep"

text \<open>
  \<open>strings.Replace(s, old, new, -1)\<close> and \<open>bytes.Replace\<close>: every non-overlapping
  occurrence, left to right. For an empty \<open>old\<close> Go inserts \<open>new\<close> before every UTF-8
  sequence and at the end; the model does so before every byte.
\<close>

function ReplaceAll :: "string \<Rightarrow> string \<Rightarrow> string \<Rightarrow> string" where
  "ReplaceAll [] old new = (if old = [] then new else [])"
| "ReplaceAll (x # xs) old new =
     (if old = [] then new @ x # ReplaceAll xs old new
      else if HasPrefix (x # xs) old then new @ ReplaceAll (drop (length old) (x # xs)) old new
      else x # ReplaceAll xs old new)"
  by pat_completeness auto

termination
  by (relation "measure (\<lambda>(s, old, new). length s)") auto

text \<open>
  \<open>strings.TrimSpace\<close> on the ASCII white space (space, \<open>\t \n \v \f \r\<close>); Go also
  trims the multi-byte Unicode spaces.
\<close>

definition isSpace :: "char \<Rightarrow> bool" where
  "isSpace c = (c \<in> set [CHR '' '', CHR 0x09, CHR 0x0A, CHR 0x0B, CHR 0x0C, CHR 0x0D])"

definition TrimSpace :: "string \<Rightarrow> string" where
  "TrimSpace s = rev (dropWhile isSpace (rev (dropWhile isSpace s)))"

text \<open>
  \<open>filepath.Clean\<close> on Unix, by path elements: empty and \<open>.\<close> elements are dropped, an
  inner \<open>..\<close> removes the element before it, a \<open>..\<close> at the root is dropped, and the empty
  result is \<open>.\<close>.
\<close>

definition cleanStep :: "bool \<Rightarrow> string list \<Rightarrow> string \<Rightarrow> string list" where
  "cleanStep rooted out el =
     (if el = [] \<or> el = ''.'' then out
      else if el = ''..'' then
        (if out \<noteq> [] \<and> last out \<noteq> ''..'' then butlast out
         else if rooted then out
         else out @ [''..''])
      else out @ [el])"

definition Clean :: "string \<Rightarrow> string" where
  "Clean path =
     (case path of
        [] \<Rightarrow> ''.''
      | c # _ \<Rightarrow>
          (let rooted = (c = CHR ''/'');
               out = foldl (cleanStep rooted) [] (SplitChar (CHR ''/'') path)
           in if rooted then ''/'' @ Join out ''/''
              else if out = [] then ''.''
              else Join out ''/''))"

text \<open>\<open>filepath.Dir\<close> on Unix: \<open>Clean\<close> of the path up to and including its last slash.\<close>

definition Dir :: "string \<Rightarrow> string" where
  "Dir path = Clean (rev (dropWhile (\<lambda>c. c \<noteq> CHR ''/'') (rev path)))"

section \<open>The host and the run's state\<close>

text \<open>
  \<open>elf.Open\<close> returns a file handle or an error (and then a nil handle); the handle's
  \<open>ImportedLibraries\<close> returns the DT_NEEDED names or an error.
\<close>

datatype elfFile = ELF (ImportedLibraries: "error + string list")

text \<open>One file visited by \<open>filepath.Walk\<close>: its path, whether it is a regular file, and
  whether it can be opened and carries the ELF magic.\<close>

record walkEntry =
  wPath :: string
  wRegular :: bool
  wMagic :: bool

text \<open>
  What the program reads from the machine it runs on: \<open>helpers.Exists\<close>, the output and
  exit status of \<open>patchelf --print-rpath\<close>, \<open>elf.Open\<close>, the environment variable
  \<open>LD_LIBRARY_PATH\<close> and the files \<open>filepath.Walk\<close> visits below a root.
\<close>

record host =
  hExists :: "string \<Rightarrow> bool"
  hPrintRpath :: "string \<Rightarrow> string \<times> error option"
  hElfOpen :: "string \<Rightarrow> error + elfFile"
  hLdLibraryPath :: string
  hWalk :: "string \<Rightarrow> walkEntry list"

text \<open>
  The package variables \<open>allLibs\<close> and \<open>libraryLocations\<close>, and what
  \<open>helpers.PrintError\<close> has written (context and message).
\<close>

record state =
  allLibs :: "string list"
  libraryLocations :: "string list"
  printed :: "(string \<times> error) list"

text \<open>
  How a call ends: it returns, the process exits through \<open>os.Exit(1)\<close>, it panics, or
  the model's recursion budget is used up.
\<close>

datatype ('s, 'a) outcome = Return 'a 's | Exit 's | Panic 's | OutOfFuel

text \<open>
  Modelled from the spec: \<open>helpers.PrintError\<close> (package internal/helpers): an error is
  "logged" and the caller goes on; a nil error prints nothing.
\<close>

definition PrintError :: "string \<Rightarrow> error option \<Rightarrow> state \<Rightarrow> state" where
  "PrintError ctx e st =
     (case e of None \<Rightarrow> st | Some msg \<Rightarrow> st\<lparr>printed := printed st @ [(ctx, msg)]\<rparr>)"

section \<open>The closure builder\<close>

definition readRpaths :: "host \<Rightarrow> string \<Rightarrow> string list \<times> error option" where
  "readRpaths h path =
     (let (out, err) = hPrintRpath h path;
          rpathStringInELF = TrimSpace out
      in if rpathStringInELF = [] then ([], err)
         else (SplitChar (CHR '':'') rpathStringInELF, err))"

text \<open>The body of the loop over \<open>rpaths\<close> in \<open>appendLib\<close>.\<close>

definition addRpath :: "string \<Rightarrow> string list \<Rightarrow> string \<Rightarrow> string list" where
  "addRpath path locations rpath0 =
     (let rpath = Clean (ReplaceAll rpath0 ''$ORIGIN'' (Dir path))
      in if \<not> SliceContains locations rpath \<and> rpath \<noteq> []
         then AppendIfMissing locations (Clean rpath)
         else locations)"

definition appendLib :: "host \<Rightarrow> string \<Rightarrow> state \<Rightarrow> (state, unit) outcome" where
  "appendLib h path st =
     (case readRpaths h path of
        (rpaths, Some err) \<Rightarrow> Exit (PrintError ''Could not determine rpath'' (Some err) st)
      | (rpaths, None) \<Rightarrow>
          (let l1 = foldl (addRpath path) (libraryLocations st) rpaths;
               l2 = AppendIfMissing l1 (Clean (Dir path))
           in Return () (st\<lparr>libraryLocations := l2,
                              allLibs := AppendIfMissing (allLibs st) path\<rparr>)))"

definition locs :: "string list" where
  "locs = [''/usr/lib64'', ''/lib64'', ''/usr/lib'', ''/lib'',
           ''/usr/lib/x86_64-linux-gnu/libfakeroot'',
           ''/usr/local/lib'',
           ''/usr/local/lib/x86_64-linux-gnu'',
           ''/lib/x86_64-linux-gnu'',
           ''/usr/lib/x86_64-linux-gnu'',
           ''/lib32'',
           ''/usr/lib32'']"

text \<open>The two loops of \<open>findLibrary\<close> that grow \<open>libraryLocations\<close>.\<close>

definition addLdp :: "string list \<Rightarrow> string \<Rightarrow> string list" where
  "addLdp locations ldp =
     (if ldp \<noteq> [] then AppendIfMissing locations (Clean ldp) else locations)"

definition seedLocations :: "host \<Rightarrow> string list \<Rightarrow> string list" where
  "seedLocations h locations =
     foldl addLdp
       (foldl (\<lambda>l loc. AppendIfMissing l (Clean loc)) locations locs)
       (SplitChar (CHR '':'') (hLdLibraryPath h))"

definition findLibrary :: "host \<Rightarrow> string \<Rightarrow> state \<Rightarrow> (error + string) \<times> state" where
  "findLibrary h filename st =
     (let st' = st\<lparr>libraryLocations := seedLocations h (libraryLocations st)\<rparr>
      in case find (\<lambda>libraryLocation. hExists h (libraryLocation @ ''/'' @ filename))
                (libraryLocations st') of
           Some libraryLocation \<Rightarrow> (Inr (libraryLocation @ ''/'' @ filename), st')
         | None \<Rightarrow> (Inl (''did not find library '' @ filename), st'))"

text \<open>
  \<open>getDeps\<close>, and its loop over the imported library names as \<open>getDepsLibs\<close>. The first
  argument bounds the depth of the recursion: \<open>getDeps\<close> calls itself for every newly
  found library. A nil handle from a failed \<open>elf.Open\<close> is only printed, and
  \<open>e.ImportedLibraries()\<close> then dereferences it: a panic.
\<close>

function getDeps :: "nat \<Rightarrow> host \<Rightarrow> string \<Rightarrow> state \<Rightarrow> (state, error option) outcome"
  and getDepsLibs :: "nat \<Rightarrow> host \<Rightarrow> string list \<Rightarrow> state \<Rightarrow> (state, error option) outcome"
where
  "getDeps 0 h binaryOrLib st = OutOfFuel"
| "getDeps (Suc n) h binaryOrLib st =
     (if \<not> hExists h binaryOrLib
      then Return (Some (''binary does not exist: '' @ binaryOrLib)) st
      else (case hElfOpen h binaryOrLib of
              Inl err \<Rightarrow> Panic (PrintError ''elf.Open'' (Some err) st)
            | Inr e \<Rightarrow>
                (case ImportedLibraries e of
                   Inl err \<Rightarrow> getDepsLibs n h [] (PrintError ''e.ImportedLibraries'' (Some err) st)
                 | Inr libs \<Rightarrow> getDepsLibs n h libs st)))"
| "getDepsLibs n h [] st = Return None st"
| "getDepsLibs n h (lib # libs) st =
     (case findLibrary h lib st of
        (Inl err, st1) \<Rightarrow> Return (Some err) st1
      | (Inr s, st1) \<Rightarrow>
          if SliceContains (allLibs st1) s then getDepsLibs n h libs st1
          else (case findLibrary h lib st1 of
                  (r, st2) \<Rightarrow>
                    (let libPath = (case r of Inl err \<Rightarrow> [] | Inr p \<Rightarrow> p);
                         st2' = PrintError ''findLibrary'' (case r of Inl err \<Rightarrow> Some err | Inr p \<Rightarrow> None) st2
                     in case appendLib h libPath st2' of
                          Return u st3 \<Rightarrow>
                            (case getDeps n h libPath st3 of
                               Return err st4 \<Rightarrow> getDepsLibs n h libs (PrintError ''findLibrary'' err st4)
                             | Exit st4 \<Rightarrow> Exit st4
                             | Panic st4 \<Rightarrow> Panic st4
                             | OutOfFuel \<Rightarrow> OutOfFuel)
                        | Exit st3 \<Rightarrow> Exit st3
                        | Panic st3 \<Rightarrow> Panic st3
                        | OutOfFuel \<Rightarrow> OutOfFuel)))"
  by pat_completeness auto

termination
  by (relation "measures
        [\<lambda>x. case x of Inl (n, h, b, st) \<Rightarrow> 2 * n | Inr (n, h, libs, st) \<Rightarrow> 2 * n + 1,
         \<lambda>x. case x of Inl (n, h, b, st) \<Rightarrow> 0 | Inr (n, h, libs, st) \<Rightarrow> length libs]") auto

text \<open>
  \<open>findAllExecutablesAndLibraries\<close>: the regular files whose path contains \<open>.so\<close> or
  that carry the ELF magic, each once, in the order of the walk. Its error is always nil.
\<close>

definition walkStep :: "string list \<Rightarrow> walkEntry \<Rightarrow> string list" where
  "walkStep acc e =
     (let a1 = (if wRegular e \<and> Contains (wPath e) ''.so''
                then AppendIfMissing acc (wPath e) else acc)
      in if wRegular e \<and> wMagic e then AppendIfMissing a1 (wPath e) else a1)"

definition findAllExecutablesAndLibraries :: "host \<Rightarrow> string \<Rightarrow> string list" where
  "findAllExecutablesAndLibraries h directory = foldl walkStep [] (hWalk h directory)"

text \<open>The two loops of \<open>determineLibsInDirTree\<close> over \<open>allelfs\<close>.\<close>

fun appendLibs :: "host \<Rightarrow> string list \<Rightarrow> state \<Rightarrow> (state, unit) outcome" where
  "appendLibs h [] st = Return () st"
| "appendLibs h (lib # rest) st =
     (case appendLib h lib st of
        Return u st1 \<Rightarrow> appendLibs h rest st1
      | other \<Rightarrow> other)"

fun getDepsAll :: "nat \<Rightarrow> host \<Rightarrow> string list \<Rightarrow> state \<Rightarrow> (state, unit) outcome" where
  "getDepsAll n h [] st = Return () st"
| "getDepsAll n h (elfpath # rest) st =
     (case getDeps n h elfpath st of
        Return err st1 \<Rightarrow> getDepsAll n h rest (PrintError ''getDeps'' err st1)
      | Exit st1 \<Rightarrow> Exit st1
      | Panic st1 \<Rightarrow> Panic st1
      | OutOfFuel \<Rightarrow> OutOfFuel)"

text \<open>\<open>determineLibsInDirTree\<close>; its \<open>appdir\<close> argument is not used by the code.\<close>

definition determineLibsInDirTree :: "nat \<Rightarrow> host \<Rightarrow> string \<Rightarrow> state \<Rightarrow> (state, unit) outcome" where
  "determineLibsInDirTree n h pathToDirTreeToBeDeployed st =
     (let allelfs = findAllExecutablesAndLibraries h pathToDirTreeToBeDeployed
      in case appendLibs h allelfs st of
           Return u st1 \<Rightarrow> getDepsAll n h allelfs st1
         | other \<Rightarrow> other)"

section \<open>Copying and patching\<close>

text \<open>
  Path lookup does not tell \<open>a//b\<close> from \<open>a/b\<close>: \<open>squeeze\<close> replaces every run of slashes
  by one slash.
\<close>

fun squeeze :: "string \<Rightarrow> string" where
  "squeeze (a # b # r) =
     (if a = CHR ''/'' \<and> b = CHR ''/'' then squeeze (b # r) else a # squeeze (b # r))"
| "squeeze s = s"

text \<open>What the last part of \<open>main\<close> does to the world, in order.\<close>

datatype action =
    CopyFile string string
  | LogNotWritingRpath string
  | SetRpath string string

text \<open>
  The bundle while it is filled: what \<open>helpers.Exists\<close> answers, the actions taken so
  far, and what \<open>helpers.PrintError\<close> has written.
\<close>

record bundleState =
  bExists :: "string \<Rightarrow> bool"
  bActions :: "action list"
  bPrinted :: "(string \<times> error) list"

text \<open>
  The operations the last part of \<open>main\<close> calls: \<open>helpers.CopyFile\<close> and
  \<open>patchelf --set-rpath\<close>, each with the error it reports, if any, and \<open>filepath.Rel\<close>,
  which returns the empty string together with an error.

  Modelled from the spec: \<open>helpers.CopyFile\<close> (package internal/helpers) copies the file
  "byte-for-byte" to the destination, which exists afterwards.
\<close>

record tools =
  tCopyFile :: "string \<Rightarrow> string \<Rightarrow> error option"
  tSetRpath :: "string \<Rightarrow> string \<Rightarrow> error option"
  tRel :: "string \<Rightarrow> string \<Rightarrow> error + string"

text \<open>\<open>main\<close>, lines 371 to 377: the loop that fills \<open>libraryLocationsInAppDir\<close>.\<close>

definition libraryLocationsInAppDir :: "string \<Rightarrow> string list \<Rightarrow> string list" where
  "libraryLocationsInAppDir appdir locations =
     foldl (\<lambda>acc lib. acc @ [if \<not> HasPrefix lib appdir then appdir @ lib else lib]) [] locations"

text \<open>
  \<open>main\<close>, lines 408 to 415: one round of the loop over \<open>libraryLocationsInAppDir\<close>; it
  carries \<open>newRpathStrings\<close> and the printed errors.
\<close>

definition rpathStep ::
  "tools \<Rightarrow> string \<Rightarrow> string \<Rightarrow> string list \<times> (string \<times> error) list \<Rightarrow> string
     \<Rightarrow> string list \<times> (string \<times> error) list" where
  "rpathStep t appdir lib acc libloc =
     (case tRel t (Dir (appdir @ lib)) libloc of
        Inl err \<Rightarrow> (fst acc @ [''$ORIGIN/'' @ Clean []],
                    snd acc @ [(''Could not compute relative path'', err)])
      | Inr relpath \<Rightarrow> (fst acc @ [''$ORIGIN/'' @ Clean relpath], snd acc))"

definition newRpathStrings ::
  "tools \<Rightarrow> string \<Rightarrow> string \<Rightarrow> string list \<Rightarrow> string list \<times> (string \<times> error) list" where
  "newRpathStrings t appdir lib locsInAppDir = foldl (rpathStep t appdir lib) ([], []) locsInAppDir"

definition newRpathStringForElf :: "tools \<Rightarrow> string \<Rightarrow> string \<Rightarrow> string list \<Rightarrow> string" where
  "newRpathStringForElf t appdir lib locsInAppDir =
     Join (fst (newRpathStrings t appdir lib locsInAppDir)) '':''"

text \<open>\<open>main\<close>, lines 398 to 446: the body of the loop over \<open>allLibs\<close>.\<close>

definition copyAndPatchLib ::
  "host \<Rightarrow> tools \<Rightarrow> string \<Rightarrow> string list \<Rightarrow> string \<Rightarrow> bundleState \<Rightarrow> (bundleState, unit) outcome" where
  "copyAndPatchLib h t appdir locsInAppDir lib w =
     (if \<not> HasPrefix lib appdir \<and> \<not> bExists w (appdir @ ''/'' @ lib) then
        (case tCopyFile t lib (appdir @ ''/'' @ lib) of
           Some err \<Rightarrow> Exit w
         | None \<Rightarrow>
             (let w1 = w\<lparr>bExists := (\<lambda>p. squeeze p = squeeze (appdir @ ''/'' @ lib) \<or> bExists w p),
                         bActions := bActions w @ [CopyFile lib (appdir @ ''/'' @ lib)]\<rparr>;
                  w2 = w1\<lparr>bPrinted := bPrinted w1 @ snd (newRpathStrings t appdir lib locsInAppDir)\<rparr>;
                  newRpath = newRpathStringForElf t appdir lib locsInAppDir
              in case readRpaths h lib of
                   (rpaths, Some err) \<Rightarrow>
                     Exit (w2\<lparr>bPrinted := bPrinted w2 @ [(''Could not determine rpath'', err)]\<rparr>)
                 | (rpaths, None) \<Rightarrow>
                     (let w3 = (case rpaths of
                                  [] \<Rightarrow> w2
                                | r # _ \<Rightarrow>
                                    if HasPrefix r ''$''
                                    then w2\<lparr>bActions := bActions w2 @ [LogNotWritingRpath (appdir @ lib)]\<rparr>
                                    else w2)
                      in case tSetRpath t newRpath (appdir @ lib) of
                           Some err \<Rightarrow>
                             Exit (w3\<lparr>bPrinted := bPrinted w3 @
                                        [(''patchelf --set-rpath '' @ appdir @ lib, err)]\<rparr>)
                         | None \<Rightarrow>
                             Return () (w3\<lparr>bActions := bActions w3 @
                                             [SetRpath newRpath (appdir @ lib)]\<rparr>))))
      else Return () w)"

text \<open>\<open>main\<close>, lines 397 to 447: the loop over \<open>allLibs\<close>.\<close>

fun copyAndPatchLibs ::
  "host \<Rightarrow> tools \<Rightarrow> string \<Rightarrow> string list \<Rightarrow> string list \<Rightarrow> bundleState \<Rightarrow> (bundleState, unit) outcome" where
  "copyAndPatchLibs h t appdir locsInAppDir [] w = Return () w"
| "copyAndPatchLibs h t appdir locsInAppDir (lib # rest) w =
     (case copyAndPatchLib h t appdir locsInAppDir lib w of
        Return u w1 \<Rightarrow> copyAndPatchLibs h t appdir locsInAppDir rest w1
      | other \<Rightarrow> other)"

text \<open>\<open>main\<close> from line 371 on, on the lists the closure has left.\<close>

definition copyAndPatch :: "host \<Rightarrow> tools \<Rightarrow> string \<Rightarrow> state \<Rightarrow> bundleState \<Rightarrow> (bundleState, unit) outcome" where
  "copyAndPatch h t appdir st w =
     copyAndPatchLibs h t appdir (libraryLocationsInAppDir appdir (libraryLocations st)) (allLibs st) w"



text \<open>The copies made and the files patched, read off the actions.\<close>

fun copiesOf :: "action list \<Rightarrow> (string \<times> string) list" where
  "copiesOf [] = []"
| "copiesOf (CopyFile src dst # r) = (src, dst) # copiesOf r"
| "copiesOf (a # r) = copiesOf r"

fun patchedOf :: "action list \<Rightarrow> string list" where
  "patchedOf [] = []"
| "patchedOf (SetRpath rpath file # r) = file # patchedOf r"
| "patchedOf (a # r) = patchedOf r"

section \<open>PatchFile\<close>

text \<open>
  The files \<open>PatchFile\<close> works on: a path names the bytes of a file and its permission
  bits, or nothing.
\<close>

type_synonym fileSystem = "string \<Rightarrow> (string \<times> nat) option"

text \<open>
  What can go wrong in one call, beyond a missing file: an error of \<open>os.Stat\<close>, of
  \<open>ioutil.ReadFile\<close>, of \<open>ioutil.WriteFile\<close> (with the bytes it has left in the target, if
  it got as far as creating it) and of \<open>os.Rename\<close>.
\<close>

record faults =
  statErr :: "error option"
  readErr :: "error option"
  writeErr :: "(error \<times> string option) option"
  renameErr :: "error option"

definition osStat :: "faults \<Rightarrow> fileSystem \<Rightarrow> string \<Rightarrow> error + nat" where
  "osStat io fs name =
     (case fs name of
        None \<Rightarrow> Inl (''stat '' @ name @ '': no such file or directory'')
      | Some (bytes, perm) \<Rightarrow> (case statErr io of Some err \<Rightarrow> Inl err | None \<Rightarrow> Inr perm))"

definition ReadFile :: "faults \<Rightarrow> fileSystem \<Rightarrow> string \<Rightarrow> error + string" where
  "ReadFile io fs name =
     (case fs name of
        None \<Rightarrow> Inl (''open '' @ name @ '': no such file or directory'')
      | Some (bytes, perm) \<Rightarrow> (case readErr io of Some err \<Rightarrow> Inl err | None \<Rightarrow> Inr bytes))"

text \<open>
  \<open>ioutil.WriteFile\<close> creates the file with the given permission bits if it does not
  exist (the umask is taken to be zero) and otherwise truncates it and keeps its bits.
\<close>

definition WriteFile ::
  "faults \<Rightarrow> fileSystem \<Rightarrow> string \<Rightarrow> string \<Rightarrow> nat \<Rightarrow> error option \<times> fileSystem" where
  "WriteFile io fs name data perm =
     (let mode = (case fs name of None \<Rightarrow> perm | Some (bytes, m) \<Rightarrow> m)
      in case writeErr io of
           None \<Rightarrow> (None, fs(name \<mapsto> (data, mode)))
         | Some (err, None) \<Rightarrow> (Some err, fs)
         | Some (err, Some left) \<Rightarrow> (Some err, fs(name \<mapsto> (left, mode))))"

definition osRename :: "faults \<Rightarrow> fileSystem \<Rightarrow> string \<Rightarrow> string \<Rightarrow> error option \<times> fileSystem" where
  "osRename io fs oldpath newpath =
     (case renameErr io of
        Some err \<Rightarrow> (Some err, fs)
      | None \<Rightarrow>
          (case fs oldpath of
             None \<Rightarrow> (Some (''rename '' @ oldpath @ '': no such file or directory''), fs)
           | Some f \<Rightarrow> (None, (fs(oldpath := None))(newpath \<mapsto> f))))"

definition PatchFile ::
  "faults \<Rightarrow> fileSystem \<Rightarrow> string \<Rightarrow> string \<Rightarrow> string \<Rightarrow> error option \<times> fileSystem" where
  "PatchFile io fs path0 search replace =
     (let path = TrimSpace path0
      in case osStat io fs path of
           Inl err \<Rightarrow> (Some err, fs)
         | Inr perm \<Rightarrow>
             (case ReadFile io fs path of
                Inl err \<Rightarrow> (Some err, fs)
              | Inr input \<Rightarrow>
                  (let output = ReplaceAll input search replace
                   in case WriteFile io fs (path @ ''.patched'') output perm of
                        (Some err, fs1) \<Rightarrow> (Some err, fs1)
                      | (None, fs1) \<Rightarrow>
                          (None, snd (osRename io fs1 (path @ ''.patched'') path)))))"

section \<open>Notions for the proofs\<close>

text \<open>
  The state a call leaves behind, however it ends; there is none when the recursion
  budget was too small.
\<close>

definition outState :: "('s, 'a) outcome \<Rightarrow> 's option" where
  "outState r = (case r of Return v s \<Rightarrow> Some s | Exit s \<Rightarrow> Some s | Panic s \<Rightarrow> Some s | OutOfFuel \<Rightarrow> None)"

text \<open>
  Both lists of the later state begin with the lists of the earlier one, and a list
  without duplicates has stayed so.
\<close>

definition grows :: "state \<Rightarrow> state \<Rightarrow> bool" where
  "grows st st' =
     (prefix (libraryLocations st) (libraryLocations st') \<and>
      (distinct (libraryLocations st) \<longrightarrow> distinct (libraryLocations st')) \<and>
      prefix (allLibs st) (allLibs st') \<and>
      (distinct (allLibs st) \<longrightarrow> distinct (allLibs st')))"

text \<open>The directories that \<open>findLibrary\<close> registers on every call.\<close>

definition seedElems :: "host \<Rightarrow> string list" where
  "seedElems h = map Clean locs @ map Clean (filter (\<lambda>ldp. ldp \<noteq> []) (SplitChar (CHR '':'') (hLdLibraryPath h)))"

text \<open>
  The library names that some file of the host declares, and those among them that do
  not yet resolve to a path in \<open>allLibs\<close>. Every recursive call of \<open>getDeps\<close> resolves
  one more name for good: the search list only grows at its end, so the first directory
  that holds a name stays the first.
\<close>

definition declaredNames :: "host \<Rightarrow> string set" where
  "declaredNames h =
     {f. \<exists>p e libs. hElfOpen h p = Inr e \<and> ImportedLibraries e = Inr libs \<and> f \<in> set libs}"

definition resolved :: "host \<Rightarrow> state \<Rightarrow> string \<Rightarrow> bool" where
  "resolved h st f =
     (case find (\<lambda>loc. hExists h (loc @ ''/'' @ f)) (seedLocations h (libraryLocations st)) of
        Some loc \<Rightarrow> loc @ ''/'' @ f \<in> set (allLibs st)
      | None \<Rightarrow> False)"

definition unresolved :: "host \<Rightarrow> state \<Rightarrow> string set" where
  "unresolved h st = {f \<in> declaredNames h. \<not> resolved h st f}"

text \<open>A state in which \<open>findLibrary\<close> has nothing left to register.\<close>

definition seeded :: "host \<Rightarrow> state \<Rightarrow> bool" where
  "seeded h st = (set (seedElems h) \<subseteq> set (libraryLocations st))"

text \<open>The state a call returns with; there is none when it exits or panics.\<close>

definition returnedState :: "('s, 'a) outcome \<Rightarrow> 's option" where
  "returnedState r = (case r of Return v s \<Rightarrow> Some s | Exit s \<Rightarrow> None | Panic s \<Rightarrow> None | OutOfFuel \<Rightarrow> None)"


definition logPart :: "host \<Rightarrow> string \<Rightarrow> string \<Rightarrow> action list" where
  "logPart h appdir lib =
     (case fst (readRpaths h lib) of
        [] \<Rightarrow> []
      | r # _ \<Rightarrow> if HasPrefix r ''$'' then [LogNotWritingRpath (appdir @ lib)] else [])"

section \<open>Example hosts\<close>

text \<open>
  Two libraries that need each other: \<open>/a/libA.so\<close> declares \<open>libB.so\<close> and
  \<open>/a/libB.so\<close> declares \<open>libA.so\<close>; the walk of \<open>/a\<close> starts from the first.
\<close>

definition hostCycle :: host where
  "hostCycle = \<lparr>
     hExists = (\<lambda>p. p = ''/a/libA.so'' \<or> p = ''/a/libB.so''),
     hPrintRpath = (\<lambda>p. ([], None)),
     hElfOpen = (\<lambda>p. if p = ''/a/libA.so'' then Inr (ELF (Inr [''libB.so'']))
                      else if p = ''/a/libB.so'' then Inr (ELF (Inr [''libA.so'']))
                      else Inl ''bad ELF magic''),
     hLdLibraryPath = [],
     hWalk = (\<lambda>d. [\<lparr>wPath = ''/a/libA.so'', wRegular = True, wMagic = True\<rparr>]) \<rparr>"

definition st0 :: state where
  "st0 = \<lparr>allLibs = [], libraryLocations = [], printed = []\<rparr>"

text \<open>
  A host with \<open>libx.so\<close> in three places: the directory \<open>/opt/ld\<close> named by
  \<open>LD_LIBRARY_PATH\<close>, the default location \<open>/usr/lib\<close>, and \<open>/opt/vendor/lib\<close>, which
  is the rpath of \<open>/usr/lib/liby.so\<close>.
\<close>

definition hostShadow :: host where
  "hostShadow = \<lparr>
     hExists = (\<lambda>p. p = ''/opt/ld/libx.so'' \<or> p = ''/usr/lib/libx.so'' \<or>
                     p = ''/opt/vendor/lib/libx.so'' \<or> p = ''/usr/lib/liby.so''),
     hPrintRpath = (\<lambda>p. if p = ''/usr/lib/liby.so'' then (''/opt/vendor/lib'', None) else ([], None)),
     hElfOpen = (\<lambda>p. if p = ''/usr/lib/liby.so'' then Inr (ELF (Inr [''libx.so'']))
                      else Inr (ELF (Inr []))),
     hLdLibraryPath = ''/opt/ld'',
     hWalk = (\<lambda>d. []) \<rparr>"

text \<open>
  Two programs below \<open>/a\<close>: \<open>/a/p\<close> declares \<open>libmissing.so\<close>, which is nowhere, and
  then \<open>libz.so\<close>; \<open>/a/q\<close> declares \<open>libz.so\<close>, which is in \<open>/usr/lib\<close> and itself
  declares \<open>libmissing.so\<close>.
\<close>

definition hostMissing :: host where
  "hostMissing = \<lparr>
     hExists = (\<lambda>p. p = ''/a/p'' \<or> p = ''/a/q'' \<or> p = ''/usr/lib/libz.so''),
     hPrintRpath = (\<lambda>p. ([], None)),
     hElfOpen = (\<lambda>p. if p = ''/a/p'' then Inr (ELF (Inr [''libmissing.so'', ''libz.so'']))
                      else if p = ''/a/q'' then Inr (ELF (Inr [''libz.so'']))
                      else if p = ''/usr/lib/libz.so'' then Inr (ELF (Inr [''libmissing.so'']))
                      else Inr (ELF (Inr []))),
     hLdLibraryPath = [],
     hWalk = (\<lambda>d. [\<lparr>wPath = ''/a/p'', wRegular = True, wMagic = True\<rparr>,
                     \<lparr>wPath = ''/a/q'', wRegular = True, wMagic = True\<rparr>]) \<rparr>"

text \<open>
  Below \<open>/a\<close> the walk finds \<open>/a/notes.so\<close>, a regular file that has the name of a
  library and is none, and then the program \<open>/a/app\<close>.
\<close>

definition hostBad :: host where
  "hostBad = \<lparr>
     hExists = (\<lambda>p. p = ''/a/notes.so'' \<or> p = ''/a/app''),
     hPrintRpath = (\<lambda>p. ([], None)),
     hElfOpen = (\<lambda>p. if p = ''/a/app'' then Inr (ELF (Inr []))
                      else Inl ''bad magic number''),
     hLdLibraryPath = [],
     hWalk = (\<lambda>d. [\<lparr>wPath = ''/a/notes.so'', wRegular = True, wMagic = False\<rparr>,
                     \<lparr>wPath = ''/a/app'', wRegular = True, wMagic = True\<rparr>]) \<rparr>"

text \<open>
  A bundle at \<open>/app\<close> that holds the program \<open>/app/usr/bin/app\<close>; the closure has found
  \<open>/usr/lib/libx.so\<close>, whose rpath is \<open>$ORIGIN/../lib\<close>. In \<open>wPre\<close> the bundle
  already holds a file at the place the library would be copied to.
\<close>

definition hostApp :: host where
  "hostApp = \<lparr>
     hExists = (\<lambda>p. p = ''/app/usr/bin/app'' \<or> p = ''/usr/lib/libx.so''),
     hPrintRpath = (\<lambda>p. if p = ''/usr/lib/libx.so'' then (''$ORIGIN/../lib'', None) else ([], None)),
     hElfOpen = (\<lambda>p. if p = ''/app/usr/bin/app'' then Inr (ELF (Inr [''libx.so'']))
                      else Inr (ELF (Inr []))),
     hLdLibraryPath = [],
     hWalk = (\<lambda>d. [\<lparr>wPath = ''/app/usr/bin/app'', wRegular = True, wMagic = True\<rparr>]) \<rparr>"

definition toolsOk :: tools where
  "toolsOk = \<lparr>
     tCopyFile = (\<lambda>src dst. None),
     tSetRpath = (\<lambda>rpath file. None),
     tRel = (\<lambda>base targ.
               if base = ''/app/usr/lib'' \<and> targ = ''/app/usr/bin'' then Inr ''../bin''
               else if base = ''/app/usr/lib'' \<and> targ = ''/app/usr/lib'' then Inr ''.''
               else Inl ''Rel: no relative path'') \<rparr>"

definition stApp :: state where
  "stApp = \<lparr>allLibs = [''/app/usr/bin/app'', ''/usr/lib/libx.so''],
            libraryLocations = [''/app/usr/bin'', ''/usr/lib''], printed = []\<rparr>"

definition wApp :: bundleState where
  "wApp = \<lparr>bExists = (\<lambda>p. p = ''/app/usr/bin/app'' \<or> p = ''/usr/lib/libx.so''),
           bActions = [], bPrinted = []\<rparr>"


text \<open>
  The file \<open>/app/loaders.cache\<close> with mode 0644, and three runs: nothing fails, the
  write of the temporary file fails half way, the rename fails.
\<close>

definition fsCache :: fileSystem where
  "fsCache = (\<lambda>p. if p = ''/app/loaders.cache'' then Some (''/usr/lib/x/a.so'', 420) else None)"



definition ioRenameFails :: faults where
  "ioRenameFails = \<lparr>statErr = None, readErr = None, writeErr = None,
                     renameErr = Some ''permission denied''\<rparr>"

section \<open>What every operation does to the two lists\<close>

lemma outState_simps [simp]:
  "outState (Return v s) = Some s" "outState (Exit s) = Some s"
  "outState (Panic s) = Some s" "outState OutOfFuel = None"
  by (simp_all add: outState_def)

lemma grows_refl [simp]: "grows st st"
  by (simp add: grows_def)

lemma grows_trans: "grows a b \<Longrightarrow> grows b c \<Longrightarrow> grows a c"
  by (auto simp: grows_def)

lemma AppendIfMissing_prefix: "prefix l (AppendIfMissing l s)"
  by (simp add: AppendIfMissing_def)

lemma AppendIfMissing_distinct: "distinct l \<Longrightarrow> distinct (AppendIfMissing l s)"
  by (simp add: AppendIfMissing_def)

lemma foldl_prefix_distinct:
  assumes "\<And>l x. prefix l (f l x) \<and> (distinct l \<longrightarrow> distinct (f l x))"
  shows "prefix l (foldl f l xs) \<and> (distinct l \<longrightarrow> distinct (foldl f l xs))"
proof (induction xs arbitrary: l)
  case Nil
  show ?case by simp
next
  case (Cons x xs)
  have a: "prefix l (f l x)" and b: "distinct l \<longrightarrow> distinct (f l x)"
    using assms by auto
  from Cons.IH [of "f l x"] a b show ?case
    by (auto intro: prefix_order.trans)
qed

lemma addRpath_step: "prefix l (addRpath p l r) \<and> (distinct l \<longrightarrow> distinct (addRpath p l r))"
  by (simp add: addRpath_def Let_def AppendIfMissing_prefix AppendIfMissing_distinct)

lemma addLdp_step: "prefix l (addLdp l r) \<and> (distinct l \<longrightarrow> distinct (addLdp l r))"
  by (simp add: addLdp_def AppendIfMissing_prefix AppendIfMissing_distinct)

lemma seedLocations_step:
  "prefix l (seedLocations h l) \<and> (distinct l \<longrightarrow> distinct (seedLocations h l))"
proof -
  let ?m = "foldl (\<lambda>l loc. AppendIfMissing l (Clean loc)) l locs"
  have 1: "prefix l ?m \<and> (distinct l \<longrightarrow> distinct ?m)"
    by (rule foldl_prefix_distinct) (simp add: AppendIfMissing_prefix AppendIfMissing_distinct)
  have 2: "prefix ?m (seedLocations h l) \<and> (distinct ?m \<longrightarrow> distinct (seedLocations h l))"
    unfolding seedLocations_def by (rule foldl_prefix_distinct) (rule addLdp_step)
  from 1 2 show ?thesis by (auto intro: prefix_order.trans)
qed

lemma PrintError_fields [simp]:
  "allLibs (PrintError c e st) = allLibs st"
  "libraryLocations (PrintError c e st) = libraryLocations st"
  by (simp_all add: PrintError_def split: option.splits)

lemma grows_PrintError [simp]: "grows st (PrintError c e st)"
  by (simp add: grows_def)

lemma findLibrary_state:
  "snd (findLibrary h f st) = st\<lparr>libraryLocations := seedLocations h (libraryLocations st)\<rparr>"
  by (simp add: findLibrary_def Let_def split: option.splits)

lemma grows_findLibrary: "grows st (snd (findLibrary h f st))"
  using seedLocations_step [of "libraryLocations st" h]
  by (simp add: findLibrary_state grows_def)

lemma grows_appendLib: "outState (appendLib h p st) = Some st' \<Longrightarrow> grows st st'"
proof -
  assume a: "outState (appendLib h p st) = Some st'"
  obtain rp e where r: "readRpaths h p = (rp, e)" by (cases "readRpaths h p")
  show ?thesis
  proof (cases e)
    case (Some err)
    with a r show ?thesis by (auto simp: appendLib_def)
  next
    case None
    let ?l1 = "foldl (addRpath p) (libraryLocations st) rp"
    have 1: "prefix (libraryLocations st) ?l1 \<and> (distinct (libraryLocations st) \<longrightarrow> distinct ?l1)"
      by (rule foldl_prefix_distinct) (rule addRpath_step)
    have st': "st' = st\<lparr>libraryLocations := AppendIfMissing ?l1 (Clean (Dir p)),
                        allLibs := AppendIfMissing (allLibs st) p\<rparr>"
      using a r None by (simp add: appendLib_def Let_def)
    show ?thesis using 1
      by (auto simp: st' grows_def AppendIfMissing_distinct AppendIfMissing_prefix
               intro: prefix_order.trans [OF _ AppendIfMissing_prefix])
  qed
qed

lemma foldl_AppendIfMissing_Clean: "foldl (\<lambda>l x. AppendIfMissing l (Clean x)) l xs = foldl AppendIfMissing l (map Clean xs)"
  by (induction xs arbitrary: l) simp_all

lemma foldl_addLdp: "foldl addLdp l xs = foldl AppendIfMissing l (map Clean (filter (\<lambda>ldp. ldp \<noteq> []) xs))"
  by (induction xs arbitrary: l) (simp_all add: addLdp_def)

lemma seedLocations_eq: "seedLocations h l = foldl AppendIfMissing l (seedElems h)"
  by (simp add: seedLocations_def seedElems_def foldl_addLdp foldl_AppendIfMissing_Clean)

lemma foldl_AppendIfMissing_set: "set (foldl AppendIfMissing l xs) = set l \<union> set xs"
  by (induction xs arbitrary: l) (auto simp: AppendIfMissing_def)

lemma foldl_AppendIfMissing_id: "set xs \<subseteq> set l \<Longrightarrow> foldl AppendIfMissing l xs = l"
  by (induction xs arbitrary: l) (auto simp: AppendIfMissing_def)

lemma seedLocations_set: "set (seedLocations h l) = set l \<union> set (seedElems h)"
  by (simp add: seedLocations_eq foldl_AppendIfMissing_set)

lemma seedLocations_id: "set (seedElems h) \<subseteq> set l \<Longrightarrow> seedLocations h l = l"
  by (simp add: seedLocations_eq foldl_AppendIfMissing_id)

lemma seedLocations_idem: "seedLocations h (seedLocations h l) = seedLocations h l"
  by (rule seedLocations_id) (simp add: seedLocations_set)

lemma findLibrary_fst:
  "fst (findLibrary h f st) =
     (case find (\<lambda>loc. hExists h (loc @ ''/'' @ f)) (seedLocations h (libraryLocations st)) of
        Some loc \<Rightarrow> Inr (loc @ ''/'' @ f)
      | None \<Rightarrow> Inl (''did not find library '' @ f))"
  by (simp add: findLibrary_def Let_def split: option.splits)

lemma findLibrary_idem: "findLibrary h f (snd (findLibrary h f st)) = findLibrary h f st"
  by (rule prod_eqI) (simp_all add: findLibrary_fst findLibrary_state seedLocations_idem)

lemma findLibrary_allLibs: "findLibrary h f st = (r, st1) \<Longrightarrow> allLibs st1 = allLibs st"
  using findLibrary_state [of h f st] by simp

lemma getDepsLibs_notfound:
  "fst (findLibrary h lib st) = Inl err \<Longrightarrow>
   getDepsLibs n h (lib # libs) st = Return (Some err) (snd (findLibrary h lib st))"
  by (cases "findLibrary h lib st") simp

lemma getDepsLibs_known:
  "fst (findLibrary h lib st) = Inr s \<Longrightarrow> s \<in> set (allLibs st) \<Longrightarrow>
   getDepsLibs n h (lib # libs) st = getDepsLibs n h libs (snd (findLibrary h lib st))"
  by (cases "findLibrary h lib st") (auto simp: SliceContains_def dest: findLibrary_allLibs)

lemma getDepsLibs_new:
  assumes "fst (findLibrary h lib st) = Inr s" and "s \<notin> set (allLibs st)"
  shows "getDepsLibs n h (lib # libs) st =
     (case appendLib h s (snd (findLibrary h lib st)) of
        Return u st3 \<Rightarrow>
          (case getDeps n h s st3 of
             Return err st4 \<Rightarrow> getDepsLibs n h libs (PrintError ''findLibrary'' err st4)
           | Exit st4 \<Rightarrow> Exit st4
           | Panic st4 \<Rightarrow> Panic st4
           | OutOfFuel \<Rightarrow> OutOfFuel)
      | Exit st3 \<Rightarrow> Exit st3
      | Panic st3 \<Rightarrow> Panic st3
      | OutOfFuel \<Rightarrow> OutOfFuel)"
proof -
  obtain st1 where f1: "findLibrary h lib st = (Inr s, st1)"
    using assms(1) by (cases "findLibrary h lib st") auto
  have f2: "findLibrary h lib st1 = (Inr s, st1)"
    using findLibrary_idem [of h lib st] f1 by simp
  have nc: "\<not> SliceContains (allLibs st1) s"
    using assms(2) f1 findLibrary_state [of h lib st] by (simp add: SliceContains_def)
  show ?thesis
    using f1 f2 nc by (simp add: PrintError_def)
qed

declare getDepsLibs.simps(2) [simp del]

lemma grows_getDepsLibs_step:
  assumes deps: "\<And>b st st'. outState (getDeps n h b st) = Some st' \<Longrightarrow> grows st st'"
  shows "outState (getDepsLibs n h libs st) = Some st' \<Longrightarrow> grows st st'"
proof (induction libs arbitrary: st)
  case Nil
  then show ?case by simp
next
  case (Cons lib libs)
  let ?st1 = "snd (findLibrary h lib st)"
  have g1: "grows st ?st1" by (rule grows_findLibrary)
  show ?case
  proof (cases "fst (findLibrary h lib st)")
    case (Inl err)
    with Cons.prems g1 show ?thesis by (simp add: getDepsLibs_notfound)
  next
    case (Inr s)
    show ?thesis
    proof (cases "s \<in> set (allLibs st)")
      case True
      with Cons.prems Inr have "outState (getDepsLibs n h libs ?st1) = Some st'"
        by (simp add: getDepsLibs_known)
      from g1 Cons.IH [OF this] show ?thesis by (rule grows_trans)
    next
      case False
      note unf = getDepsLibs_new [OF Inr False, of n libs]
      show ?thesis
      proof (cases "appendLib h s ?st1")
        case (Return u st3)
        have "grows ?st1 st3" using grows_appendLib [of h s ?st1 st3] Return by simp
        with g1 have g3: "grows st st3" by (rule grows_trans)
        show ?thesis
        proof (cases "getDeps n h s st3")
          case r4: (Return err st4)
          have "grows st3 st4" using deps [of s st3 st4] r4 by simp
          with g3 have g4: "grows st st4" by (rule grows_trans)
          have g4': "grows st (PrintError ''findLibrary'' err st4)"
            using g4 grows_PrintError by (rule grows_trans)
          have "outState (getDepsLibs n h libs (PrintError ''findLibrary'' err st4)) = Some st'"
            using Cons.prems unf Return r4 by simp
          from g4' Cons.IH [OF this] show ?thesis by (rule grows_trans)
        next
          case (Exit st4)
          have "grows st3 st4" using deps [of s st3 st4] Exit by simp
          with g3 have "grows st st4" by (rule grows_trans)
          moreover have "st' = st4" using Cons.prems unf Return Exit by simp
          ultimately show ?thesis by simp
        next
          case (Panic st4)
          have "grows st3 st4" using deps [of s st3 st4] Panic by simp
          with g3 have "grows st st4" by (rule grows_trans)
          moreover have "st' = st4" using Cons.prems unf Return Panic by simp
          ultimately show ?thesis by simp
        next
          case OutOfFuel
          with Cons.prems unf Return show ?thesis by simp
        qed
      next
        case (Exit st3)
        have "grows ?st1 st3" using grows_appendLib [of h s ?st1 st3] Exit by simp
        with g1 have "grows st st3" by (rule grows_trans)
        moreover have "st' = st3" using Cons.prems unf Exit by simp
        ultimately show ?thesis by simp
      next
        case (Panic st3)
        have "grows ?st1 st3" using grows_appendLib [of h s ?st1 st3] Panic by simp
        with g1 have "grows st st3" by (rule grows_trans)
        moreover have "st' = st3" using Cons.prems unf Panic by simp
        ultimately show ?thesis by simp
      next
        case OutOfFuel
        with Cons.prems unf show ?thesis by simp
      qed
    qed
  qed
qed

lemma grows_getDeps: "outState (getDeps n h b st) = Some st' \<Longrightarrow> grows st st'"
proof (induction n arbitrary: b st st')
  case 0
  then show ?case by simp
next
  case (Suc n)
  have libs: "\<And>libs st st'. outState (getDepsLibs n h libs st) = Some st' \<Longrightarrow> grows st st'"
    by (rule grows_getDepsLibs_step) (rule Suc.IH)
  show ?case
  proof (cases "hExists h b")
    case False
    with Suc.prems show ?thesis by simp
  next
    case True
    show ?thesis
    proof (cases "hElfOpen h b")
      case (Inl err)
      with True Suc.prems show ?thesis by auto
    next
      case (Inr e)
      show ?thesis
      proof (cases "ImportedLibraries e")
        case (Inl err)
        with True Inr Suc.prems show ?thesis by auto
      next
        case r: (Inr ls)
        with True Inr Suc.prems libs [of ls st st'] show ?thesis by simp
      qed
    qed
  qed
qed


section \<open>Termination of the closure\<close>





lemma seeded_PrintError [simp]: "seeded h (PrintError c e st) = seeded h st"
  by (simp add: seeded_def)

lemma resolved_findLibrary [simp]: "resolved h (snd (findLibrary h f st)) g = resolved h st g"
  by (simp add: resolved_def findLibrary_state seedLocations_idem split: option.splits)

lemma resolved_PrintError [simp]: "resolved h (PrintError c e st) g = resolved h st g"
  by (simp add: resolved_def split: option.splits)

lemma unresolved_findLibrary [simp]: "unresolved h (snd (findLibrary h f st)) = unresolved h st"
  by (simp add: unresolved_def)

lemma unresolved_PrintError [simp]: "unresolved h (PrintError c e st) = unresolved h st"
  by (simp add: unresolved_def)










lemma grows_appendLibs: "outState (appendLibs h ps st) = Some st' \<Longrightarrow> grows st st'"
proof (induction ps arbitrary: st)
  case Nil
  then show ?case by simp
next
  case (Cons p ps)
  show ?case
  proof (cases "appendLib h p st")
    case (Return u st1)
    have g1: "grows st st1" using grows_appendLib [of h p st st1] Return by simp
    have "outState (appendLibs h ps st1) = Some st'" using Cons.prems Return by simp
    from g1 Cons.IH [OF this] show ?thesis by (rule grows_trans)
  next
    case (Exit st1)
    with Cons.prems grows_appendLib [of h p st st1] show ?thesis by simp
  next
    case (Panic st1)
    with Cons.prems grows_appendLib [of h p st st1] show ?thesis by simp
  next
    case OutOfFuel
    with Cons.prems show ?thesis by simp
  qed
qed



lemma grows_getDepsAll: "outState (getDepsAll n h es st) = Some st' \<Longrightarrow> grows st st'"
proof (induction es arbitrary: st)
  case Nil
  then show ?case by simp
next
  case (Cons e es)
  show ?case
  proof (cases "getDeps n h e st")
    case (Return err st1)
    have "grows st st1" using grows_getDeps [of n h e st st1] Return by simp
    then have g1: "grows st (PrintError ''getDeps'' err st1)"
      using grows_PrintError by (rule grows_trans)
    have "outState (getDepsAll n h es (PrintError ''getDeps'' err st1)) = Some st'"
      using Cons.prems Return by simp
    from g1 Cons.IH [OF this] show ?thesis by (rule grows_trans)
  next
    case (Exit st1)
    with Cons.prems grows_getDeps [of n h e st st1] show ?thesis by simp
  next
    case (Panic st1)
    with Cons.prems grows_getDeps [of n h e st st1] show ?thesis by simp
  next
    case OutOfFuel
    with Cons.prems show ?thesis by simp
  qed
qed


lemma grows_determineLibsInDirTree:
  "outState (determineLibsInDirTree n h root st) = Some st' \<Longrightarrow> grows st st'"
proof -
  assume a: "outState (determineLibsInDirTree n h root st) = Some st'"
  let ?es = "findAllExecutablesAndLibraries h root"
  show ?thesis
  proof (cases "appendLibs h ?es st")
    case (Return u st1)
    have g1: "grows st st1" using grows_appendLibs [of h ?es st st1] Return by simp
    have "outState (getDepsAll n h ?es st1) = Some st'"
      using a Return by (simp add: determineLibsInDirTree_def)
    then have "grows st1 st'" by (rule grows_getDepsAll)
    with g1 show ?thesis by (rule grows_trans)
  next
    case (Exit st1)
    with a grows_appendLibs [of h ?es st st1] show ?thesis
      by (simp add: determineLibsInDirTree_def)
  next
    case (Panic st1)
    with a grows_appendLibs [of h ?es st st1] show ?thesis
      by (simp add: determineLibsInDirTree_def)
  next
    case OutOfFuel
    with a show ?thesis by (simp add: determineLibsInDirTree_def)
  qed
qed





lemma hostCycle_walk: "findAllExecutablesAndLibraries hostCycle ''/a'' = [''/a/libA.so'']"
  by code_simp

lemma hostCycle_appendLibs: "appendLibs hostCycle [''/a/libA.so''] st0 = Return () \<lparr>allLibs = [''/a/libA.so''], libraryLocations = [''/a''], printed = []\<rparr>"
  by code_simp

lemma hostCycle_find_libB: "findLibrary hostCycle ''libB.so'' \<lparr>allLibs = [''/a/libA.so''], libraryLocations = [''/a''], printed = []\<rparr>
   = (Inr ''/a/libB.so'', \<lparr>allLibs = [''/a/libA.so''], libraryLocations = ''/a'' # locs, printed = []\<rparr>)"
  by code_simp

lemma hostCycle_appendLib_libB: "appendLib hostCycle ''/a/libB.so'' \<lparr>allLibs = [''/a/libA.so''], libraryLocations = ''/a'' # locs, printed = []\<rparr>
   = Return () \<lparr>allLibs = [''/a/libA.so'', ''/a/libB.so''], libraryLocations = ''/a'' # locs, printed = []\<rparr>"
  by code_simp

lemma hostCycle_getDeps_libB: "getDeps 2 hostCycle ''/a/libB.so'' \<lparr>allLibs = [''/a/libA.so'', ''/a/libB.so''], libraryLocations = ''/a'' # locs, printed = []\<rparr>
   = Return None \<lparr>allLibs = [''/a/libA.so'', ''/a/libB.so''], libraryLocations = ''/a'' # locs, printed = []\<rparr>"
  by code_simp

lemma hostCycle_getDepsLibs_libA: "getDepsLibs 2 hostCycle [''libB.so''] \<lparr>allLibs = [''/a/libA.so''], libraryLocations = [''/a''], printed = []\<rparr>
   = Return None \<lparr>allLibs = [''/a/libA.so'', ''/a/libB.so''], libraryLocations = ''/a'' # locs, printed = []\<rparr>"
proof -
  let ?st = "\<lparr>allLibs = [''/a/libA.so''], libraryLocations = [''/a''], printed = []\<rparr>"
  have a: "fst (findLibrary hostCycle ''libB.so'' ?st) = Inr ''/a/libB.so''" by (simp add: hostCycle_find_libB)
  have b: "''/a/libB.so'' \<notin> set (allLibs ?st)" by simp
  show ?thesis
    by (subst getDepsLibs_new [OF a b]) (simp add: hostCycle_find_libB hostCycle_appendLib_libB hostCycle_getDeps_libB PrintError_def)
qed

lemma hostCycle_getDeps_libA: "getDeps 3 hostCycle ''/a/libA.so'' \<lparr>allLibs = [''/a/libA.so''], libraryLocations = [''/a''], printed = []\<rparr>
   = Return None \<lparr>allLibs = [''/a/libA.so'', ''/a/libB.so''], libraryLocations = ''/a'' # locs, printed = []\<rparr>"
proof -
  have e: "hExists hostCycle ''/a/libA.so''" by (simp add: hostCycle_def)
  have o: "hElfOpen hostCycle ''/a/libA.so'' = Inr (ELF (Inr [''libB.so'']))" by (simp add: hostCycle_def)
  have s: "Suc 2 = 3" by simp
  have "getDeps (Suc 2) hostCycle ''/a/libA.so'' \<lparr>allLibs = [''/a/libA.so''], libraryLocations = [''/a''], printed = []\<rparr>
   = Return None \<lparr>allLibs = [''/a/libA.so'', ''/a/libB.so''], libraryLocations = ''/a'' # locs, printed = []\<rparr>"
    by (subst getDeps.simps(2)) (simp add: e o hostCycle_getDepsLibs_libA)
  then show ?thesis unfolding s .
qed

lemma cycle_example: "determineLibsInDirTree 3 hostCycle ''/a'' st0
   = Return () \<lparr>allLibs = [''/a/libA.so'', ''/a/libB.so''], libraryLocations = ''/a'' # locs, printed = []\<rparr>"
  unfolding determineLibsInDirTree_def hostCycle_walk Let_def hostCycle_appendLibs
  by (simp add: hostCycle_getDeps_libA PrintError_def)


section \<open>The search-directory list only grows\<close>

text \<open>
  C9. \<open>libraryLocations\<close> is append-only and free of duplicates: \<open>AppendIfMissing\<close>
  leaves a list that already holds the directory unchanged and otherwise appends at the
  end; \<open>findLibrary\<close>, \<open>appendLib\<close>, \<open>getDeps\<close> and \<open>determineLibsInDirTree\<close>, however
  they end, leave a list of which the old one is a prefix, and without duplicates when
  the old one had none.
\<close>

theorem libraryLocations_append_only:
  "(d \<in> set l \<longrightarrow> AppendIfMissing l d = l) \<and>
   prefix l (AppendIfMissing l d) \<and>
   (distinct l \<longrightarrow> distinct (AppendIfMissing l d)) \<and>
   prefix (libraryLocations st) (libraryLocations (snd (findLibrary h f st))) \<and>
   (distinct (libraryLocations st) \<longrightarrow> distinct (libraryLocations (snd (findLibrary h f st)))) \<and>
   (\<forall>st'. outState (appendLib h p st) = Some st' \<longrightarrow>
      prefix (libraryLocations st) (libraryLocations st') \<and>
      (distinct (libraryLocations st) \<longrightarrow> distinct (libraryLocations st'))) \<and>
   (\<forall>st'. outState (getDeps n h b st) = Some st' \<longrightarrow>
      prefix (libraryLocations st) (libraryLocations st') \<and>
      (distinct (libraryLocations st) \<longrightarrow> distinct (libraryLocations st'))) \<and>
   (\<forall>st'. outState (determineLibsInDirTree n h root st) = Some st' \<longrightarrow>
      prefix (libraryLocations st) (libraryLocations st') \<and>
      (distinct (libraryLocations st) \<longrightarrow> distinct (libraryLocations st')))"
proof (intro conjI allI impI)
  assume "d \<in> set l"
  then show "AppendIfMissing l d = l" by (simp add: AppendIfMissing_def)
next
  show "prefix l (AppendIfMissing l d)" by (rule AppendIfMissing_prefix)
next
  assume "distinct l"
  then show "distinct (AppendIfMissing l d)" by (rule AppendIfMissing_distinct)
next
  show "prefix (libraryLocations st) (libraryLocations (snd (findLibrary h f st)))"
    using grows_findLibrary [of st h f] by (simp add: grows_def)
next
  assume "distinct (libraryLocations st)"
  then show "distinct (libraryLocations (snd (findLibrary h f st)))"
    using grows_findLibrary [of st h f] by (simp add: grows_def)
next
  fix st' assume "outState (appendLib h p st) = Some st'"
  then have "grows st st'" by (rule grows_appendLib)
  then show "prefix (libraryLocations st) (libraryLocations st')" by (simp add: grows_def)
next
  fix st' assume "outState (appendLib h p st) = Some st'" and d: "distinct (libraryLocations st)"
  then have "grows st st'" by (simp add: grows_appendLib)
  with d show "distinct (libraryLocations st')" by (simp add: grows_def)
next
  fix st' assume "outState (getDeps n h b st) = Some st'"
  then have "grows st st'" by (rule grows_getDeps)
  then show "prefix (libraryLocations st) (libraryLocations st')" by (simp add: grows_def)
next
  fix st' assume "outState (getDeps n h b st) = Some st'" and d: "distinct (libraryLocations st)"
  then have "grows st st'" by (simp add: grows_getDeps)
  with d show "distinct (libraryLocations st')" by (simp add: grows_def)
next
  fix st' assume "outState (determineLibsInDirTree n h root st) = Some st'"
  then have "grows st st'" by (rule grows_determineLibsInDirTree)
  then show "prefix (libraryLocations st) (libraryLocations st')" by (simp add: grows_def)
next
  fix st' assume "outState (determineLibsInDirTree n h root st) = Some st'"
    and d: "distinct (libraryLocations st)"
  then have "grows st st'" by (simp add: grows_determineLibsInDirTree)
  with d show "distinct (libraryLocations st')" by (simp add: grows_def)
qed

theorem libraryLocations_append_only_witness:
  "''/a'' \<in> set [''/a''] \<and> AppendIfMissing [''/a''] ''/a'' = [''/a''] \<and>
   distinct (libraryLocations st0) \<and>
   outState (determineLibsInDirTree 3 hostCycle ''/a'' st0) =
     Some \<lparr>allLibs = [''/a/libA.so'', ''/a/libB.so''],
           libraryLocations = ''/a'' # locs, printed = []\<rparr> \<and>
   prefix (libraryLocations st0) (''/a'' # locs) \<and>
   distinct (''/a'' # locs)"
  using libraryLocations_append_only [of "''/a''" "[''/a'']" st0 hostCycle "''libA.so''" "''/a/libA.so''" 3 "''/a/libA.so''" "''/a''"]
    cycle_example
  by (simp add: st0_def)

section \<open>The order of the search\<close>

lemma hostShadow_find_env:
  "findLibrary hostShadow ''libx.so'' st0 =
     (Inr ''/usr/lib/libx.so'',
      \<lparr>allLibs = [], libraryLocations = locs @ [''/opt/ld''], printed = []\<rparr>)"
  by code_simp

lemma hostShadow_appendLib:
  "appendLib hostShadow ''/usr/lib/liby.so''
     \<lparr>allLibs = [], libraryLocations = locs @ [''/opt/ld''], printed = []\<rparr> =
   Return () \<lparr>allLibs = [''/usr/lib/liby.so''],
               libraryLocations = locs @ [''/opt/ld'', ''/opt/vendor/lib''], printed = []\<rparr>"
  by code_simp

lemma hostShadow_find_hint:
  "findLibrary hostShadow ''libx.so''
     \<lparr>allLibs = [''/usr/lib/liby.so''],
        libraryLocations = locs @ [''/opt/ld'', ''/opt/vendor/lib''], printed = []\<rparr> =
     (Inr ''/usr/lib/libx.so'',
      \<lparr>allLibs = [''/usr/lib/liby.so''],
         libraryLocations = locs @ [''/opt/ld'', ''/opt/vendor/lib''], printed = []\<rparr>)"
  by code_simp

text \<open>
  C2. The first directory of \<open>libraryLocations\<close> that holds the name wins, but the list
  is in the order of registration, and \<open>findLibrary\<close> registers the fixed system
  locations before the directories of \<open>LD_LIBRARY_PATH\<close>: from the empty list the copy
  in \<open>/usr/lib\<close> is found, not the one in \<open>/opt/ld\<close>. An rpath registered by
  \<open>appendLib\<close> after that first search comes later still, and the copy in
  \<open>/opt/vendor/lib\<close> loses to \<open>/usr/lib\<close> as well.
\<close>

theorem findLibrary_default_shadows_env_and_hint:
  "hLdLibraryPath hostShadow = ''/opt/ld'' \<and>
   hExists hostShadow ''/opt/ld/libx.so'' \<and>
   fst (findLibrary hostShadow ''libx.so'' st0) = Inr ''/usr/lib/libx.so'' \<and>
   fst (hPrintRpath hostShadow ''/usr/lib/liby.so'') = ''/opt/vendor/lib'' \<and>
   appendLib hostShadow ''/usr/lib/liby.so'' (snd (findLibrary hostShadow ''libx.so'' st0)) =
     Return () \<lparr>allLibs = [''/usr/lib/liby.so''],
                 libraryLocations = locs @ [''/opt/ld'', ''/opt/vendor/lib''], printed = []\<rparr> \<and>
   hExists hostShadow ''/opt/vendor/lib/libx.so'' \<and>
   fst (findLibrary hostShadow ''libx.so''
          \<lparr>allLibs = [''/usr/lib/liby.so''],
             libraryLocations = locs @ [''/opt/ld'', ''/opt/vendor/lib''], printed = []\<rparr>) =
     Inr ''/usr/lib/libx.so''"
  by (simp add: hostShadow_find_env hostShadow_appendLib hostShadow_find_hint)
     (simp add: hostShadow_def)

section \<open>A library that is not found\<close>

lemma hostMissing_walk: "findAllExecutablesAndLibraries hostMissing ''/a'' = [''/a/p'', ''/a/q'']"
  by code_simp

lemma hostMissing_appendLibs:
  "appendLibs hostMissing [''/a/p'', ''/a/q''] st0 =
     Return () \<lparr>allLibs = [''/a/p'', ''/a/q''], libraryLocations = [''/a''], printed = []\<rparr>"
  by code_simp

lemma hostMissing_find_missing:
  "findLibrary hostMissing ''libmissing.so''
     \<lparr>allLibs = [''/a/p'', ''/a/q''], libraryLocations = [''/a''], printed = []\<rparr> =
   (Inl ''did not find library libmissing.so'',
    \<lparr>allLibs = [''/a/p'', ''/a/q''], libraryLocations = ''/a'' # locs, printed = []\<rparr>)"
  by code_simp

lemma hostMissing_getDeps_p:
  "getDeps 2 hostMissing ''/a/p''
     \<lparr>allLibs = [''/a/p'', ''/a/q''], libraryLocations = [''/a''], printed = []\<rparr> =
   Return (Some ''did not find library libmissing.so'')
     \<lparr>allLibs = [''/a/p'', ''/a/q''], libraryLocations = ''/a'' # locs, printed = []\<rparr>"
  by code_simp

lemma hostMissing_find_libz:
  "findLibrary hostMissing ''libz.so''
     \<lparr>allLibs = [''/a/p'', ''/a/q''], libraryLocations = ''/a'' # locs,
        printed = [(''getDeps'', ''did not find library libmissing.so'')]\<rparr> =
   (Inr ''/usr/lib/libz.so'',
    \<lparr>allLibs = [''/a/p'', ''/a/q''], libraryLocations = ''/a'' # locs,
       printed = [(''getDeps'', ''did not find library libmissing.so'')]\<rparr>)"
  by code_simp

lemma hostMissing_appendLib_libz:
  "appendLib hostMissing ''/usr/lib/libz.so''
     \<lparr>allLibs = [''/a/p'', ''/a/q''], libraryLocations = ''/a'' # locs,
        printed = [(''getDeps'', ''did not find library libmissing.so'')]\<rparr> =
   Return () \<lparr>allLibs = [''/a/p'', ''/a/q'', ''/usr/lib/libz.so''], libraryLocations = ''/a'' # locs,
       printed = [(''getDeps'', ''did not find library libmissing.so'')]\<rparr>"
  by code_simp

lemma hostMissing_getDeps_libz:
  "getDeps (Suc 0) hostMissing ''/usr/lib/libz.so''
     \<lparr>allLibs = [''/a/p'', ''/a/q'', ''/usr/lib/libz.so''], libraryLocations = ''/a'' # locs,
        printed = [(''getDeps'', ''did not find library libmissing.so'')]\<rparr> =
   Return (Some ''did not find library libmissing.so'') \<lparr>allLibs = [''/a/p'', ''/a/q'', ''/usr/lib/libz.so''], libraryLocations = ''/a'' # locs,
       printed = [(''getDeps'', ''did not find library libmissing.so'')]\<rparr>"
  by code_simp

declare getDeps.simps(2) [simp del]

lemma hostMissing_getDeps_q:
  "getDeps 2 hostMissing ''/a/q''
     \<lparr>allLibs = [''/a/p'', ''/a/q''], libraryLocations = ''/a'' # locs,
        printed = [(''getDeps'', ''did not find library libmissing.so'')]\<rparr> =
   Return None \<lparr>allLibs = [''/a/p'', ''/a/q'', ''/usr/lib/libz.so''], libraryLocations = ''/a'' # locs,
       printed = [(''getDeps'', ''did not find library libmissing.so''),
                  (''findLibrary'', ''did not find library libmissing.so'')]\<rparr>"
proof -
  let ?st = "\<lparr>allLibs = [''/a/p'', ''/a/q''], libraryLocations = ''/a'' # locs,
        printed = [(''getDeps'', ''did not find library libmissing.so'')]\<rparr>"
  have a: "fst (findLibrary hostMissing ''libz.so'' ?st) = Inr ''/usr/lib/libz.so''"
    by (simp add: hostMissing_find_libz)
  have b: "''/usr/lib/libz.so'' \<notin> set (allLibs ?st)" by simp
  have l: "getDepsLibs (Suc 0) hostMissing [''libz.so''] ?st =
     Return None \<lparr>allLibs = [''/a/p'', ''/a/q'', ''/usr/lib/libz.so''], libraryLocations = ''/a'' # locs,
       printed = [(''getDeps'', ''did not find library libmissing.so''),
                  (''findLibrary'', ''did not find library libmissing.so'')]\<rparr>"
    by (subst getDepsLibs_new [OF a b])
       (simp add: hostMissing_find_libz hostMissing_appendLib_libz hostMissing_getDeps_libz PrintError_def)
  have e: "hExists hostMissing ''/a/q''" by (simp add: hostMissing_def)
  have o: "hElfOpen hostMissing ''/a/q'' = Inr (ELF (Inr [''libz.so'']))" by (simp add: hostMissing_def)
  have s: "Suc (Suc 0) = 2" by simp
  have "getDeps (Suc (Suc 0)) hostMissing ''/a/q'' ?st =
     Return None \<lparr>allLibs = [''/a/p'', ''/a/q'', ''/usr/lib/libz.so''], libraryLocations = ''/a'' # locs,
       printed = [(''getDeps'', ''did not find library libmissing.so''),
                  (''findLibrary'', ''did not find library libmissing.so'')]\<rparr>"
    by (subst getDeps.simps(2)) (simp add: e o l)
  then show ?thesis unfolding s .
qed

lemma hostMissing_run:
  "determineLibsInDirTree 2 hostMissing ''/a'' st0 =
     Return () \<lparr>allLibs = [''/a/p'', ''/a/q'', ''/usr/lib/libz.so''],
                 libraryLocations = ''/a'' # locs,
                 printed = [(''getDeps'', ''did not find library libmissing.so''),
                            (''findLibrary'', ''did not find library libmissing.so'')]\<rparr>"
  unfolding determineLibsInDirTree_def hostMissing_walk Let_def hostMissing_appendLibs
  by (simp add: hostMissing_getDeps_p hostMissing_getDeps_q PrintError_def)

lemma appendLib_returns: "snd (readRpaths h p) = None \<Longrightarrow> \<exists>st'. appendLib h p st = Return () st'"
  by (cases "readRpaths h p") (simp add: appendLib_def Let_def)

lemma getDepsLibs_no_abort_step:
  assumes rp: "\<And>p. snd (readRpaths h p) = None"
    and deps: "\<And>b st. getDeps n h b st \<noteq> OutOfFuel \<Longrightarrow> \<exists>v s. getDeps n h b st = Return v s"
  shows "getDepsLibs n h libs st \<noteq> OutOfFuel \<Longrightarrow> \<exists>v s. getDepsLibs n h libs st = Return v s"
proof (induction libs arbitrary: st)
  case Nil
  show ?case by simp
next
  case (Cons lib libs)
  let ?st1 = "snd (findLibrary h lib st)"
  show ?case
  proof (cases "fst (findLibrary h lib st)")
    case (Inl err)
    then show ?thesis by (simp add: getDepsLibs_notfound)
  next
    case (Inr s)
    show ?thesis
    proof (cases "s \<in> set (allLibs st)")
      case True
      with Inr Cons.prems Cons.IH [of ?st1] show ?thesis by (simp add: getDepsLibs_known)
    next
      case False
      note unf = getDepsLibs_new [OF Inr False, of n libs]
      from appendLib_returns [OF rp, of s ?st1] obtain st3 where
        a: "appendLib h s ?st1 = Return () st3" by auto
      have nf: "getDeps n h s st3 \<noteq> OutOfFuel"
        using Cons.prems unf a by (auto split: outcome.splits)
      from deps [OF nf] obtain err st4 where g: "getDeps n h s st3 = Return err st4" by auto
      have eq: "getDepsLibs n h (lib # libs) st =
                getDepsLibs n h libs (PrintError ''findLibrary'' err st4)"
        using unf a g by simp
      with Cons.prems Cons.IH [of "PrintError ''findLibrary'' err st4"] show ?thesis by simp
    qed
  qed
qed

lemma getDeps_no_abort:
  assumes rp: "\<And>p. snd (readRpaths h p) = None"
    and op: "\<And>p. hExists h p \<Longrightarrow> \<exists>e. hElfOpen h p = Inr e"
  shows "getDeps n h b st \<noteq> OutOfFuel \<Longrightarrow> \<exists>v s. getDeps n h b st = Return v s"
proof (induction n arbitrary: b st)
  case 0
  then show ?case by simp
next
  case (Suc n)
  have libs: "\<And>libs st. getDepsLibs n h libs st \<noteq> OutOfFuel \<Longrightarrow>
                \<exists>v s. getDepsLibs n h libs st = Return v s"
    by (rule getDepsLibs_no_abort_step [OF rp]) (rule Suc.IH)
  show ?case
  proof (cases "hExists h b")
    case False
    then show ?thesis by (simp add: getDeps.simps(2))
  next
    case True
    from op [OF True] obtain e where o: "hElfOpen h b = Inr e" by auto
    show ?thesis
    proof (cases "ImportedLibraries e")
      case (Inl err)
      with True o show ?thesis by (simp add: getDeps.simps(2))
    next
      case (Inr ls)
      with True o Suc.prems libs [of ls st] show ?thesis by (simp add: getDeps.simps(2))
    qed
  qed
qed

lemma getDepsAll_no_abort:
  assumes rp: "\<And>p. snd (readRpaths h p) = None"
    and op: "\<And>p. hExists h p \<Longrightarrow> \<exists>e. hElfOpen h p = Inr e"
  shows "getDepsAll n h es st \<noteq> OutOfFuel \<Longrightarrow> \<exists>s. getDepsAll n h es st = Return () s"
proof (induction es arbitrary: st)
  case Nil
  show ?case by simp
next
  case (Cons e es)
  have nf: "getDeps n h e st \<noteq> OutOfFuel" using Cons.prems by (auto split: outcome.splits)
  from getDeps_no_abort [OF rp op nf] obtain err st1 where
    g: "getDeps n h e st = Return err st1" by auto
  with Cons.prems Cons.IH [of "PrintError ''getDeps'' err st1"] show ?case by simp
qed

lemma appendLibs_returns:
  assumes rp: "\<And>p. snd (readRpaths h p) = None"
  shows "\<exists>s. appendLibs h ps st = Return () s"
proof (induction ps arbitrary: st)
  case Nil
  show ?case by simp
next
  case (Cons p ps)
  from appendLib_returns [OF rp, of p st] obtain st1 where "appendLib h p st = Return () st1" by auto
  with Cons.IH [of st1] show ?case by simp
qed

lemma determineLibsInDirTree_no_abort:
  assumes rp: "\<And>p. snd (readRpaths h p) = None"
    and op: "\<And>p. hExists h p \<Longrightarrow> \<exists>e. hElfOpen h p = Inr e"
    and nf: "determineLibsInDirTree n h root st \<noteq> OutOfFuel"
  shows "\<exists>st'. determineLibsInDirTree n h root st = Return () st'"
proof -
  let ?es = "findAllExecutablesAndLibraries h root"
  from appendLibs_returns [OF rp, of ?es st] obtain st1 where
    a: "appendLibs h ?es st = Return () st1" by auto
  have d: "determineLibsInDirTree n h root st = getDepsAll n h ?es st1"
    using a by (simp add: determineLibsInDirTree_def)
  with nf have "getDepsAll n h ?es st1 \<noteq> OutOfFuel" by simp
  from getDepsAll_no_abort [OF rp op this] d show ?thesis by simp
qed

lemma hostMissing_readRpaths: "snd (readRpaths hostMissing p) = None"
  by (simp add: readRpaths_def hostMissing_def TrimSpace_def)

lemma hostMissing_elfOpen: "\<exists>e. hElfOpen hostMissing p = Inr e"
  by (simp add: hostMissing_def)

text \<open>
  C3, as the claim states it, fails: the run over \<open>/a\<close> goes on after
  \<open>libmissing.so\<close> was not found for \<open>/a/p\<close>. It resolves the library of \<open>/a/q\<close>, prints
  the two failures and returns.
\<close>

theorem notfound_is_not_fatal:
  "fst (findLibrary hostMissing ''libmissing.so''
          \<lparr>allLibs = [''/a/p'', ''/a/q''], libraryLocations = [''/a''], printed = []\<rparr>) =
     Inl ''did not find library libmissing.so'' \<and>
   determineLibsInDirTree 2 hostMissing ''/a'' st0 =
     Return () \<lparr>allLibs = [''/a/p'', ''/a/q'', ''/usr/lib/libz.so''],
                 libraryLocations = ''/a'' # locs,
                 printed = [(''getDeps'', ''did not find library libmissing.so''),
                            (''findLibrary'', ''did not find library libmissing.so'')]\<rparr>"
  by (simp add: hostMissing_find_missing hostMissing_run)

text \<open>
  C3, amended. \<open>findLibrary\<close> fails with the error "did not find library" followed by
  the name exactly when no directory of the search list holds the name. \<open>getDeps\<close> then
  returns that error at once, leaving the remaining names of that binary unvisited; the
  recursive call in \<open>getDeps\<close> and the loop of \<open>determineLibsInDirTree\<close> only print the
  error and go on with their remaining work. No failed resolution ends the run: where
  \<open>patchelf --print-rpath\<close> and \<open>elf.Open\<close> succeed, \<open>determineLibsInDirTree\<close> returns.
\<close>

theorem notfound_returned_and_printed:
  "((fst (findLibrary h f st) = Inl (''did not find library '' @ f)) =
      (\<forall>loc \<in> set (seedLocations h (libraryLocations st)). \<not> hExists h (loc @ ''/'' @ f))) \<and>
   (fst (findLibrary h lib st) = Inl e \<longrightarrow>
      getDepsLibs n h (lib # libs) st = Return (Some e) (snd (findLibrary h lib st))) \<and>
   (fst (findLibrary h lib2 st2) = Inr s \<and> s \<notin> set (allLibs st2) \<and>
    appendLib h s (snd (findLibrary h lib2 st2)) = Return u st3 \<and>
    getDeps m h s st3 = Return (Some e) st4 \<longrightarrow>
      getDepsLibs m h (lib2 # libs2) st2 =
        getDepsLibs m h libs2 (PrintError ''findLibrary'' (Some e) st4)) \<and>
   (getDeps n h elfpath st = Return (Some e) st1 \<longrightarrow>
      getDepsAll n h (elfpath # rest) st =
        getDepsAll n h rest (PrintError ''getDeps'' (Some e) st1)) \<and>
   ((\<forall>p. snd (readRpaths h p) = None) \<and> (\<forall>p. hExists h p \<longrightarrow> (\<exists>e. hElfOpen h p = Inr e)) \<and>
    determineLibsInDirTree n h root st5 \<noteq> OutOfFuel \<longrightarrow>
      (\<exists>st'. determineLibsInDirTree n h root st5 = Return () st'))"
proof (intro conjI impI)
  show "(fst (findLibrary h f st) = Inl (''did not find library '' @ f)) =
      (\<forall>loc \<in> set (seedLocations h (libraryLocations st)). \<not> hExists h (loc @ ''/'' @ f))"
  proof (cases "find (\<lambda>loc. hExists h (loc @ ''/'' @ f)) (seedLocations h (libraryLocations st))")
    case None
    have 1: "fst (findLibrary h f st) = Inl (''did not find library '' @ f)"
      using None by (simp add: findLibrary_fst)
    have 2: "\<forall>loc \<in> set (seedLocations h (libraryLocations st)). \<not> hExists h (loc @ ''/'' @ f)"
      using None by (simp add: find_None_iff)
    from 1 2 show ?thesis by simp
  next
    case (Some loc)
    then have "loc \<in> set (seedLocations h (libraryLocations st)) \<and> hExists h (loc @ ''/'' @ f)"
      by (auto simp: find_Some_iff)
    with Some show ?thesis by (auto simp: findLibrary_fst)
  qed
next
  assume "fst (findLibrary h lib st) = Inl e"
  then show "getDepsLibs n h (lib # libs) st = Return (Some e) (snd (findLibrary h lib st))"
    by (rule getDepsLibs_notfound)
next
  assume a: "fst (findLibrary h lib2 st2) = Inr s \<and> s \<notin> set (allLibs st2) \<and>
    appendLib h s (snd (findLibrary h lib2 st2)) = Return u st3 \<and>
    getDeps m h s st3 = Return (Some e) st4"
  then have 1: "fst (findLibrary h lib2 st2) = Inr s" and 2: "s \<notin> set (allLibs st2)" by auto
  from a show "getDepsLibs m h (lib2 # libs2) st2 =
        getDepsLibs m h libs2 (PrintError ''findLibrary'' (Some e) st4)"
    by (simp add: getDepsLibs_new [OF 1 2])
next
  assume "getDeps n h elfpath st = Return (Some e) st1"
  then show "getDepsAll n h (elfpath # rest) st =
        getDepsAll n h rest (PrintError ''getDeps'' (Some e) st1)"
    by simp
next
  assume a: "(\<forall>p. snd (readRpaths h p) = None) \<and> (\<forall>p. hExists h p \<longrightarrow> (\<exists>e. hElfOpen h p = Inr e)) \<and>
    determineLibsInDirTree n h root st5 \<noteq> OutOfFuel"
  show "\<exists>st'. determineLibsInDirTree n h root st5 = Return () st'"
    by (rule determineLibsInDirTree_no_abort) (use a in auto)
qed

theorem notfound_returned_and_printed_witness:
  "fst (findLibrary hostMissing ''libmissing.so''
          \<lparr>allLibs = [''/a/p'', ''/a/q''], libraryLocations = [''/a''], printed = []\<rparr>) =
     Inl ''did not find library libmissing.so'' \<and>
   getDepsLibs 2 hostMissing [''libmissing.so'', ''libz.so'']
     \<lparr>allLibs = [''/a/p'', ''/a/q''], libraryLocations = [''/a''], printed = []\<rparr> =
     Return (Some ''did not find library libmissing.so'')
       \<lparr>allLibs = [''/a/p'', ''/a/q''], libraryLocations = ''/a'' # locs, printed = []\<rparr> \<and>
   getDepsLibs (Suc 0) hostMissing [''libz.so'']
     \<lparr>allLibs = [''/a/p'', ''/a/q''], libraryLocations = ''/a'' # locs,
        printed = [(''getDeps'', ''did not find library libmissing.so'')]\<rparr> =
     getDepsLibs (Suc 0) hostMissing []
       \<lparr>allLibs = [''/a/p'', ''/a/q'', ''/usr/lib/libz.so''], libraryLocations = ''/a'' # locs,
          printed = [(''getDeps'', ''did not find library libmissing.so''),
                     (''findLibrary'', ''did not find library libmissing.so'')]\<rparr> \<and>
   getDepsAll 2 hostMissing [''/a/p'', ''/a/q'']
     \<lparr>allLibs = [''/a/p'', ''/a/q''], libraryLocations = [''/a''], printed = []\<rparr> =
     getDepsAll 2 hostMissing [''/a/q'']
       \<lparr>allLibs = [''/a/p'', ''/a/q''], libraryLocations = ''/a'' # locs,
          printed = [(''getDeps'', ''did not find library libmissing.so'')]\<rparr> \<and>
   (\<exists>st'. determineLibsInDirTree 2 hostMissing ''/a'' st0 = Return () st')"
  using notfound_returned_and_printed
          [of hostMissing "''libmissing.so''"
              "\<lparr>allLibs = [''/a/p'', ''/a/q''], libraryLocations = [''/a''], printed = []\<rparr>"
              "''libmissing.so''" "''did not find library libmissing.so''" 2 "[''libz.so'']"
              "''libz.so''"
              "\<lparr>allLibs = [''/a/p'', ''/a/q''], libraryLocations = ''/a'' # locs,
                 printed = [(''getDeps'', ''did not find library libmissing.so'')]\<rparr>"
              "''/usr/lib/libz.so''" "()"
              "\<lparr>allLibs = [''/a/p'', ''/a/q'', ''/usr/lib/libz.so''], libraryLocations = ''/a'' # locs,
                 printed = [(''getDeps'', ''did not find library libmissing.so'')]\<rparr>"
              "Suc 0"
              "\<lparr>allLibs = [''/a/p'', ''/a/q'', ''/usr/lib/libz.so''], libraryLocations = ''/a'' # locs,
                 printed = [(''getDeps'', ''did not find library libmissing.so'')]\<rparr>"
              "[]" "''/a/p''"
              "\<lparr>allLibs = [''/a/p'', ''/a/q''], libraryLocations = ''/a'' # locs, printed = []\<rparr>"
              "[''/a/q'']" "''/a''" st0]
        hostMissing_find_missing hostMissing_find_libz hostMissing_appendLib_libz
        hostMissing_getDeps_libz hostMissing_getDeps_p hostMissing_run
        hostMissing_readRpaths hostMissing_elfOpen
  by (simp add: PrintError_def)

section \<open>A file that is not an ELF file\<close>

lemma hostBad_walk: "findAllExecutablesAndLibraries hostBad ''/a'' = [''/a/notes.so'', ''/a/app'']"
  by code_simp

lemma hostBad_appendLibs:
  "appendLibs hostBad [''/a/notes.so'', ''/a/app''] st0 =
     Return () \<lparr>allLibs = [''/a/notes.so'', ''/a/app''], libraryLocations = [''/a''], printed = []\<rparr>"
  by code_simp

lemma hostBad_getDeps:
  "getDeps (Suc 0) hostBad ''/a/notes.so''
     \<lparr>allLibs = [''/a/notes.so'', ''/a/app''], libraryLocations = [''/a''], printed = []\<rparr> =
   Panic \<lparr>allLibs = [''/a/notes.so'', ''/a/app''], libraryLocations = [''/a''],
           printed = [(''elf.Open'', ''bad magic number'')]\<rparr>"
  by code_simp

text \<open>
  C7. \<open>getDeps\<close> prints the error of \<open>elf.Open\<close> and goes on to call
  \<open>ImportedLibraries\<close> on the nil handle: the run ends in a panic at the first file that
  is not an ELF file, and \<open>/a/app\<close> is never inspected.
\<close>

theorem elf_open_failure_panics:
  "hExists hostBad ''/a/notes.so'' \<and>
   hElfOpen hostBad ''/a/notes.so'' = Inl ''bad magic number'' \<and>
   determineLibsInDirTree (Suc 0) hostBad ''/a'' st0 =
     Panic \<lparr>allLibs = [''/a/notes.so'', ''/a/app''], libraryLocations = [''/a''],
             printed = [(''elf.Open'', ''bad magic number'')]\<rparr>"
proof -
  have "determineLibsInDirTree (Suc 0) hostBad ''/a'' st0 =
     Panic \<lparr>allLibs = [''/a/notes.so'', ''/a/app''], libraryLocations = [''/a''],
             printed = [(''elf.Open'', ''bad magic number'')]\<rparr>"
    unfolding determineLibsInDirTree_def hostBad_walk Let_def hostBad_appendLibs
    by (simp add: hostBad_getDeps)
  then show ?thesis by (simp add: hostBad_def)
qed

section \<open>The copies and the rpath\<close>





lemma copiesOf_append [simp]: "copiesOf (xs @ ys) = copiesOf xs @ copiesOf ys"
  by (induction xs rule: copiesOf.induct) simp_all

lemma patchedOf_append [simp]: "patchedOf (xs @ ys) = patchedOf xs @ patchedOf ys"
  by (induction xs rule: patchedOf.induct) simp_all

lemma copiesOf_logPart [simp]: "copiesOf (logPart h appdir lib) = []"
  by (simp add: logPart_def split: list.splits)

lemma patchedOf_logPart [simp]: "patchedOf (logPart h appdir lib) = []"
  by (simp add: logPart_def split: list.splits)









lemma hostApp_readRpaths: "readRpaths hostApp ''/usr/lib/libx.so'' = ([''$ORIGIN/../lib''], None)"
  by code_simp

lemma hostApp_run:
  "map_option bActions (returnedState (copyAndPatch hostApp toolsOk ''/app'' stApp wApp)) =
     Some [CopyFile ''/usr/lib/libx.so'' ''/app//usr/lib/libx.so'',
           LogNotWritingRpath ''/app/usr/lib/libx.so'',
           SetRpath ''$ORIGIN/../bin:$ORIGIN/.'' ''/app/usr/lib/libx.so'']"
  by code_simp




text \<open>
  C4. For a library whose rpath begins with \<open>$\<close> the code logs that it is not writing
  the rpath, and then writes it: \<open>patchelf --set-rpath\<close> is run on the copy of
  \<open>/usr/lib/libx.so\<close> with the newly computed string.
\<close>

theorem rpath_rewritten_despite_origin:
  "fst (readRpaths hostApp ''/usr/lib/libx.so'') = [''$ORIGIN/../lib''] \<and>
   HasPrefix ''$ORIGIN/../lib'' ''$'' \<and>
   map_option bActions (returnedState (copyAndPatch hostApp toolsOk ''/app'' stApp wApp)) =
     Some [CopyFile ''/usr/lib/libx.so'' ''/app//usr/lib/libx.so'',
           LogNotWritingRpath ''/app/usr/lib/libx.so'',
           SetRpath ''$ORIGIN/../bin:$ORIGIN/.'' ''/app/usr/lib/libx.so'']"
  by (simp add: hostApp_readRpaths hostApp_run) (simp add: HasPrefix_def)









section \<open>PatchFile is atomic\<close>

lemma WriteFile_other: "name \<noteq> p \<Longrightarrow> snd (WriteFile io fs name data perm) p = fs p"
  by (auto simp: WriteFile_def Let_def split: option.splits prod.splits)

lemma osRename_failed: "fst (osRename io fs a b) \<noteq> None \<Longrightarrow> snd (osRename io fs a b) = fs"
  by (auto simp: osRename_def split: option.splits)




declare ReplaceAll.simps [simp del]

lemma TrimSpace_cache: "TrimSpace '' /app/loaders.cache '' = ''/app/loaders.cache''"
  by code_simp

lemma fsCache_file: "fsCache ''/app/loaders.cache'' = Some (''/usr/lib/x/a.so'', 420)"
  "fsCache ''/app/loaders.cache.patched'' = None"
  by (simp_all add: fsCache_def)

lemma ReplaceAll_cache: "ReplaceAll ''/usr/lib/x/a.so'' ''/usr/lib/x/'' [] = ''a.so''"
  by code_simp


lemma renameFails_stat: "osStat ioRenameFails fsCache ''/app/loaders.cache'' = Inr 420"
  by code_simp

lemma renameFails_read: "ReadFile ioRenameFails fsCache ''/app/loaders.cache'' = Inr ''/usr/lib/x/a.so''"
  by code_simp

lemma renameFails_write:
  "fst (WriteFile ioRenameFails fsCache ''/app/loaders.cache.patched'' ''a.so'' 420) = None"
  by code_simp

lemma renameFails_rename:
  "fst (osRename ioRenameFails
          (snd (WriteFile ioRenameFails fsCache ''/app/loaders.cache.patched'' ''a.so'' 420))
          ''/app/loaders.cache.patched'' ''/app/loaders.cache'') = Some ''permission denied''"
  by code_simp



text \<open>
  C10. When \<open>os.Stat\<close>, \<open>ioutil.ReadFile\<close> and the \<open>ioutil.WriteFile\<close> of the temporary
  file succeed, \<open>PatchFile\<close> returns nil whatever \<open>os.Rename\<close> does; when the rename
  fails the file is left as it was, unpatched, and the caller is not told.
\<close>

theorem PatchFile_nil_despite_rename:
  "osStat io fs (TrimSpace path) = Inr perm \<and>
   ReadFile io fs (TrimSpace path) = Inr input \<and>
   fst (WriteFile io fs (TrimSpace path @ ''.patched'') (ReplaceAll input search replace) perm) = None \<longrightarrow>
     fst (PatchFile io fs path search replace) = None \<and>
     (fst (osRename io
             (snd (WriteFile io fs (TrimSpace path @ ''.patched'') (ReplaceAll input search replace) perm))
             (TrimSpace path @ ''.patched'') (TrimSpace path)) \<noteq> None \<longrightarrow>
        snd (PatchFile io fs path search replace) (TrimSpace path) = fs (TrimSpace path))"
proof (intro impI conjI)
  assume a: "osStat io fs (TrimSpace path) = Inr perm \<and>
   ReadFile io fs (TrimSpace path) = Inr input \<and>
   fst (WriteFile io fs (TrimSpace path @ ''.patched'') (ReplaceAll input search replace) perm) = None"
  let ?w = "WriteFile io fs (TrimSpace path @ ''.patched'') (ReplaceAll input search replace) perm"
  from a have p: "PatchFile io fs path search replace =
      (None, snd (osRename io (snd ?w) (TrimSpace path @ ''.patched'') (TrimSpace path)))"
    by (cases ?w) (simp add: PatchFile_def Let_def)
  then show "fst (PatchFile io fs path search replace) = None" by simp
  assume "fst (osRename io (snd ?w) (TrimSpace path @ ''.patched'') (TrimSpace path)) \<noteq> None"
  then have "snd (osRename io (snd ?w) (TrimSpace path @ ''.patched'') (TrimSpace path)) = snd ?w"
    by (rule osRename_failed)
  with p show "snd (PatchFile io fs path search replace) (TrimSpace path) = fs (TrimSpace path)"
    by (simp add: WriteFile_other)
qed

theorem PatchFile_nil_despite_rename_witness:
  "osStat ioRenameFails fsCache ''/app/loaders.cache'' = Inr 420 \<and>
   ReadFile ioRenameFails fsCache ''/app/loaders.cache'' = Inr ''/usr/lib/x/a.so'' \<and>
   fst (WriteFile ioRenameFails fsCache ''/app/loaders.cache.patched'' ''a.so'' 420) = None \<and>
   fst (osRename ioRenameFails
          (snd (WriteFile ioRenameFails fsCache ''/app/loaders.cache.patched'' ''a.so'' 420))
          ''/app/loaders.cache.patched'' ''/app/loaders.cache'') = Some ''permission denied'' \<and>
   fst (PatchFile ioRenameFails fsCache '' /app/loaders.cache '' ''/usr/lib/x/'' []) = None \<and>
   snd (PatchFile ioRenameFails fsCache '' /app/loaders.cache '' ''/usr/lib/x/'' [])
     ''/app/loaders.cache'' = Some (''/usr/lib/x/a.so'', 420)"
proof -
  let ?p = "'' /app/loaders.cache ''"
  have h: "osStat ioRenameFails fsCache (TrimSpace ?p) = Inr 420 \<and>
           ReadFile ioRenameFails fsCache (TrimSpace ?p) = Inr ''/usr/lib/x/a.so'' \<and>
           fst (WriteFile ioRenameFails fsCache (TrimSpace ?p @ ''.patched'')
                  (ReplaceAll ''/usr/lib/x/a.so'' ''/usr/lib/x/'' []) 420) = None"
    by (simp add: TrimSpace_cache ReplaceAll_cache renameFails_stat renameFails_read renameFails_write)
  note t = PatchFile_nil_despite_rename
             [of ioRenameFails fsCache ?p 420 "''/usr/lib/x/a.so''" "''/usr/lib/x/''" "[]",
              THEN mp, OF h]
  from t have 1: "fst (PatchFile ioRenameFails fsCache ?p ''/usr/lib/x/'' []) = None"
    by (rule conjunct1)
  have r: "fst (osRename ioRenameFails
             (snd (WriteFile ioRenameFails fsCache (TrimSpace ?p @ ''.patched'')
                     (ReplaceAll ''/usr/lib/x/a.so'' ''/usr/lib/x/'' []) 420))
             (TrimSpace ?p @ ''.patched'') (TrimSpace ?p)) \<noteq> None"
    by (simp add: TrimSpace_cache ReplaceAll_cache renameFails_rename)
  from t [THEN conjunct2, THEN mp, OF r]
  have 2: "snd (PatchFile ioRenameFails fsCache ?p ''/usr/lib/x/'' []) ''/app/loaders.cache'' =
             Some (''/usr/lib/x/a.so'', 420)"
    by (simp only: TrimSpace_cache fsCache_file)
  from 1 2 renameFails_stat renameFails_read renameFails_write renameFails_rename
  show ?thesis by blast
qed

end
